theory Spec2Isabelle
  imports Main "HOL-Library.Word"
begin

section \<open>The transport listener (pkg/network/listener.go)\<close>

subsection \<open>Values of the Go runtime and of package net\<close>

text \<open>
  Connections, TCP listeners and callback objects are opaque to the listener: it only
  stores them and hands them on. They are modelled by their identity.
\<close>

type_synonym raw_conn = nat
type_synonym tcp_listener = nat
type_synonym listener_cb = nat

text \<open>
  A \<open>net.Addr\<close> is an interface value. \<open>listen\<close> asserts that it holds a
  \<open>*net.TCPAddr\<close>; any other dynamic type, and the nil interface (\<open>None\<close> below),
  makes the assertion panic.
\<close>

datatype net_addr = TCPAddr string | OtherAddr string

text \<open>
  Errors, as far as \<open>Start\<close> tells them apart: a \<open>*net.OpError\<close> (which implements
  \<open>net.Error\<close>), some other implementation of \<open>net.Error\<close>, or any other error.
  The two flags are the results of \<open>Timeout()\<close> and \<open>Temporary()\<close>, the string that
  of \<open>Error()\<close>.
\<close>

datatype go_error =
    OpError bool bool string
  | NetError bool bool string
  | PlainError string

fun is_net_Error :: "go_error \<Rightarrow> bool" where
  "is_net_Error (OpError _ _ _) = True"
| "is_net_Error (NetError _ _ _) = True"
| "is_net_Error (PlainError _) = False"

fun is_OpError :: "go_error \<Rightarrow> bool" where
  "is_OpError (OpError _ _ _) = True"
| "is_OpError (NetError _ _ _) = False"
| "is_OpError (PlainError _) = False"

fun err_Timeout :: "go_error \<Rightarrow> bool" where
  "err_Timeout (OpError t _ _) = t"
| "err_Timeout (NetError t _ _) = t"
| "err_Timeout (PlainError _) = False"

fun err_Temporary :: "go_error \<Rightarrow> bool" where
  "err_Temporary (OpError _ t _) = t"
| "err_Temporary (NetError _ t _) = t"
| "err_Temporary (PlainError _) = False"

fun err_Error :: "go_error \<Rightarrow> string" where
  "err_Error (OpError _ _ s) = s"
| "err_Error (NetError _ _ s) = s"
| "err_Error (PlainError s) = s"

datatype panic = NilDereference | TypeAssertion

text \<open>
  What the listener does to the world around it, in the order it does it: calls into
  package net, calls of the registered callback, goroutines it starts, and lines it logs.
  \<open>EvGo rawc\<close> is the \<open>go func() { ... }()\<close> statement of \<open>accept\<close> for the accepted
  connection \<open>rawc\<close>; what that goroutine does when it runs is \<open>accept_goroutine\<close>.
\<close>

datatype event =
    EvListenTCP string
  | EvAccept "tcp_listener option"
  | EvGo raw_conn
  | EvOnAccept listener_cb raw_conn bool
  | EvOnClose listener_cb
  | EvRawClose "tcp_listener option"
  | EvRecovered panic
  | EvLog string

subsection \<open>The configuration and the listener\<close>

text \<open>
  \<open>v2.ListenerConfig\<close> is declared in pkg/api/v2; the fields are those \<open>NewListener\<close>
  reads. \<open>InheritListener\<close> is a \<open>*net.TCPListener\<close>, nil when nothing is inherited.
\<close>

record ListenerConfig =
  lc_Name :: string
  lc_Addr :: "net_addr option"
  lc_BindToPort :: bool
  lc_ListenerTag :: "64 word"
  lc_PerConnBufferLimitBytes :: "32 word"
  lc_HandOffRestoredDestinationConnections :: bool
  lc_InheritListener :: "tcp_listener option"

record listener =
  name :: string
  localAddress :: "net_addr option"
  bindToPort :: bool
  listenerTag :: "64 word"
  perConnBufferLimitBytes :: "32 word"
  handOffRestoredDestinationConnections :: bool
  cb :: "listener_cb option"
  rawl :: "tcp_listener option"

text \<open>
  The body of \<open>NewListener\<close> for a non-nil \<open>lc\<close>: the composite literal leaves \<open>cb\<close>
  and \<open>rawl\<close> nil, then an inherited listener is adopted.
\<close>

definition newListener :: "ListenerConfig \<Rightarrow> listener" where
  "newListener lc =
     (let l = \<lparr> name = lc_Name lc,
                localAddress = lc_Addr lc,
                bindToPort = lc_BindToPort lc,
                listenerTag = lc_ListenerTag lc,
                perConnBufferLimitBytes = lc_PerConnBufferLimitBytes lc,
                handOffRestoredDestinationConnections = lc_HandOffRestoredDestinationConnections lc,
                cb = None,
                rawl = None \<rparr>
      in if lc_InheritListener lc \<noteq> None then l\<lparr>rawl := lc_InheritListener lc\<rparr> else l)"

text \<open>\<open>NewListener\<close> takes a pointer; reading a field of a nil \<open>lc\<close> panics.\<close>

definition NewListener :: "ListenerConfig option \<Rightarrow> panic + listener" where
  "NewListener lc = (case lc of None \<Rightarrow> Inl NilDereference | Some c \<Rightarrow> Inr (newListener c))"

definition Name :: "listener \<Rightarrow> string" where
  "Name l = name l"

definition Addr :: "listener \<Rightarrow> net_addr option" where
  "Addr l = localAddress l"

definition ListenerTag :: "listener \<Rightarrow> 64 word" where
  "ListenerTag l = listenerTag l"

definition PerConnBufferLimitBytes :: "listener \<Rightarrow> 32 word" where
  "PerConnBufferLimitBytes l = perConnBufferLimitBytes l"

text \<open>The argument is an interface value and may be nil.\<close>

definition SetListenerCallbacks :: "listener_cb option \<Rightarrow> listener \<Rightarrow> listener" where
  "SetListenerCallbacks c l = l\<lparr>cb := c\<rparr>"

subsection \<open>Close, listen, accept\<close>

text \<open>
  \<open>Close\<close> calls \<open>l.cb.OnClose()\<close>, which panics on a nil \<open>cb\<close> before anything else
  happens, then returns what \<open>l.rawl.Close()\<close> returns. That result is package net's: it
  is the parameter \<open>rawClose\<close>, a function of the receiver (nil included).
\<close>

definition Close ::
  "(tcp_listener option \<Rightarrow> go_error option) \<Rightarrow> listener \<Rightarrow> (panic + go_error option) \<times> event list"
where
  "Close rawClose l =
     (case cb l of
        None \<Rightarrow> (Inl NilDereference, [])
      | Some c \<Rightarrow> (Inr (rawClose (rawl l)), [EvOnClose c, EvRawClose (rawl l)]))"

text \<open>
  \<open>listen\<close> binds a new socket on \<open>localAddress\<close>. \<open>res\<close> is what \<open>net.ListenTCP\<close>
  returns for the call. On success the new listener is stored in \<open>rawl\<close>.
\<close>

definition listen ::
  "(go_error + tcp_listener) \<Rightarrow> listener \<Rightarrow> (panic + go_error option) \<times> listener \<times> event list"
where
  "listen res l =
     (case localAddress l of
        None \<Rightarrow> (Inl TypeAssertion, l, [])
      | Some (OtherAddr _) \<Rightarrow> (Inl TypeAssertion, l, [])
      | Some (TCPAddr a) \<Rightarrow>
          (case res of
             Inl err \<Rightarrow> (Inr (Some err), l, [EvListenTCP a])
           | Inr r \<Rightarrow> (Inr None, l\<lparr>rawl := Some r\<rparr>, [EvListenTCP a])))"

text \<open>
  \<open>accept\<close> takes one connection off the raw listener; \<open>res\<close> is what
  \<open>l.rawl.Accept()\<close> returns. An error is returned as it is. Otherwise a goroutine is
  started for the connection and nil is returned.
\<close>

definition accept :: "(go_error + raw_conn) \<Rightarrow> listener \<Rightarrow> go_error option \<times> event list" where
  "accept res l =
     (case res of
        Inl err \<Rightarrow> (Some err, [EvAccept (rawl l)])
      | Inr rawc \<Rightarrow> (None, [EvAccept (rawl l), EvGo rawc]))"

text \<open>
  The goroutine that \<open>accept\<close> starts. It reads \<open>l.cb\<close> and the hand-off flag when it
  runs, so it is given the listener as it is then. With a nil \<open>cb\<close> the call panics and
  the deferred function recovers and prints.
\<close>

definition accept_goroutine :: "listener \<Rightarrow> raw_conn \<Rightarrow> event list" where
  "accept_goroutine l rawc =
     (case cb l of
        None \<Rightarrow> [EvRecovered NilDereference]
      | Some c \<Rightarrow> [EvOnAccept c rawc (handOffRestoredDestinationConnections l)])"

text \<open>
  Running, against the listener \<open>l\<close>, every goroutine that a trace started, one after
  the other in the order they were started. That is one schedule among those the Go
  scheduler may choose; it is applied below to the trace of a single \<open>accept\<close> only,
  which starts at most one goroutine.
\<close>

fun run_goroutines :: "listener \<Rightarrow> event list \<Rightarrow> event list" where
  "run_goroutines l [] = []"
| "run_goroutines l (EvGo rawc # es) = accept_goroutine l rawc @ run_goroutines l es"
| "run_goroutines l (_ # es) = run_goroutines l es"

subsection \<open>Start\<close>

text \<open>
  The file holds an unresolved merge in the import block and inside the \<open>for\<close> loop of
  \<open>Start\<close>. The side modelled is HEAD, the one that imports \<open>time\<close>, which \<open>Stop\<close>
  needs; its loop does not read \<open>stopChan\<close>. The other side, read with the lines that
  follow the conflict, would call \<open>err.Error()\<close> on a nil \<open>err\<close> after every
  successful accept. What \<open>Start\<close> does before the loop, and \<open>accept\<close> itself, are
  outside the conflict.

  The loop runs until an accept fails with a \<open>net.Error\<close> whose \<open>Timeout()\<close> holds. The
  answers of the successive \<open>Accept\<close> calls are the script \<open>rs\<close>; when it is used up
  the next \<open>Accept\<close> does not return, and the outcome is \<open>Blocked\<close>.
\<close>

datatype outcome = Returned | Blocked | Panicked panic

fun accept_loop :: "listener \<Rightarrow> (go_error + raw_conn) list \<Rightarrow> outcome \<times> event list" where
  "accept_loop l [] = (Blocked, [EvAccept (rawl l)])"
| "accept_loop l (r # rs) =
     (case accept r l of
        (Some err, evs) \<Rightarrow>
          if is_net_Error err \<and> err_Timeout err then
            (Returned,
             evs @ [EvLog (''listener '' @ name l @ '' stop accepting connections by deadline'')])
          else
            let logged =
                  (if is_OpError err then
                     (if \<not> (err_Timeout err \<and> err_Temporary err)
                      then [EvLog (''not temp-timeout error:'' @ err_Error err)] else [])
                   else [EvLog (''unknown error while listener accepting:'' @ err_Error err)]);
                (out, evs') = accept_loop l rs
            in (out, evs @ logged @ evs')
      | (None, evs) \<Rightarrow>
          let (out, evs') = accept_loop l rs in (out, evs @ evs'))"

definition serve :: "listener \<Rightarrow> (go_error + raw_conn) list \<Rightarrow> outcome \<times> event list" where
  "serve l rs = (if bindToPort l then accept_loop l rs else (Returned, []))"

text \<open>
  The connections the loop takes off a script: those returned before the first error that
  ends the loop.
\<close>

fun accepted :: "(go_error + raw_conn) list \<Rightarrow> raw_conn list" where
  "accepted [] = []"
| "accepted (Inr rawc # rs) = rawc # accepted rs"
| "accepted (Inl err # rs) =
     (if is_net_Error err \<and> err_Timeout err then [] else accepted rs)"

text \<open>The connections a trace started a goroutine for, in the order of the \<open>go\<close> statements.\<close>

fun started :: "event list \<Rightarrow> raw_conn list" where
  "started [] = []"
| "started (EvGo rawc # es) = rawc # started es"
| "started (_ # es) = started es"

text \<open>
  \<open>Start\<close>: \<open>lres\<close> is the answer of \<open>net.ListenTCP\<close> should \<open>listen\<close> be called, \<open>rs\<close>
  the answers of the \<open>Accept\<close> calls.
\<close>

definition Start ::
  "(go_error + tcp_listener) \<Rightarrow> (go_error + raw_conn) list \<Rightarrow> listener
     \<Rightarrow> outcome \<times> listener \<times> event list"
where
  "Start lres rs l =
     (if rawl l = None then
        (case listen lres l of
           (Inl p, l', evs) \<Rightarrow> (Panicked p, l', evs)
         | (Inr (Some err), l', evs) \<Rightarrow>
             (Returned, l', evs @ [EvLog (name l @ '' listen failed,  '' @ err_Error err)])
         | (Inr None, l', evs) \<Rightarrow>
             (let (out, evs') = serve l' rs in (out, l', evs @ evs')))
      else
        (let (out, evs') = serve l rs in (out, l, evs')))"

text \<open>
  A client of the listener, between construction and a later query: calls of \<open>Start\<close>
  and \<open>SetListenerCallbacks\<close> in any order. A panic ends the run.
\<close>

datatype listener_call =
    CallStart "go_error + tcp_listener" "(go_error + raw_conn) list"
  | CallSetListenerCallbacks "listener_cb option"

fun run_calls :: "listener \<Rightarrow> listener_call list \<Rightarrow> listener" where
  "run_calls l [] = l"
| "run_calls l (CallSetListenerCallbacks c # cs) = run_calls (SetListenerCallbacks c l) cs"
| "run_calls l (CallStart lres rs # cs) =
     (case Start lres rs l of
        (Panicked p, l', evs) \<Rightarrow> l'
      | (out, l', evs) \<Rightarrow> run_calls l' cs)"

section \<open>The stream layer's declarations (package types)\<close>

subsection \<open>Reset reasons and filter statuses\<close>

text \<open>
  The four vocabularies are named string types, each with a \<open>const\<close> block. A constant
  is modelled by its value; a block by the list of its declarations, identifier and value,
  in source order.
\<close>

type_synonym StreamResetReason = string

definition StreamConnectionTermination :: StreamResetReason where
  "StreamConnectionTermination = ''ConnectionTermination''"

definition StreamConnectionFailed :: StreamResetReason where
  "StreamConnectionFailed = ''ConnectionFailed''"

definition StreamLocalReset :: StreamResetReason where
  "StreamLocalReset = ''StreamLocalReset''"

definition StreamOverflow :: StreamResetReason where
  "StreamOverflow = ''StreamOverflow''"

definition StreamRemoteReset :: StreamResetReason where
  "StreamRemoteReset = ''StreamRemoteReset''"

definition StreamResetReason_consts :: "(string \<times> StreamResetReason) list" where
  "StreamResetReason_consts =
     [(''StreamConnectionTermination'', StreamConnectionTermination),
      (''StreamConnectionFailed'', StreamConnectionFailed),
      (''StreamLocalReset'', StreamLocalReset),
      (''StreamOverflow'', StreamOverflow),
      (''StreamRemoteReset'', StreamRemoteReset)]"

type_synonym FilterHeadersStatus = string

definition FilterHeadersStatusContinue :: FilterHeadersStatus where
  "FilterHeadersStatusContinue = ''Continue''"

definition FilterHeadersStatusStopIteration :: FilterHeadersStatus where
  "FilterHeadersStatusStopIteration = ''StopIteration''"

definition FilterHeadersStatus_consts :: "(string \<times> FilterHeadersStatus) list" where
  "FilterHeadersStatus_consts =
     [(''FilterHeadersStatusContinue'', FilterHeadersStatusContinue),
      (''FilterHeadersStatusStopIteration'', FilterHeadersStatusStopIteration)]"

type_synonym FilterDataStatus = string

definition FilterDataStatusContinue :: FilterDataStatus where
  "FilterDataStatusContinue = ''Continue''"

definition FilterDataStatusStopIterationAndBuffer :: FilterDataStatus where
  "FilterDataStatusStopIterationAndBuffer = ''StopIterationAndBuffer''"

definition FilterDataStatusStopIterationAndWatermark :: FilterDataStatus where
  "FilterDataStatusStopIterationAndWatermark = ''StopIterationAndWatermark''"

definition FilterDataStatusStopIterationNoBuffer :: FilterDataStatus where
  "FilterDataStatusStopIterationNoBuffer = ''StopIterationNoBuffer''"

definition FilterDataStatus_consts :: "(string \<times> FilterDataStatus) list" where
  "FilterDataStatus_consts =
     [(''FilterDataStatusContinue'', FilterDataStatusContinue),
      (''FilterDataStatusStopIterationAndBuffer'', FilterDataStatusStopIterationAndBuffer),
      (''FilterDataStatusStopIterationAndWatermark'', FilterDataStatusStopIterationAndWatermark),
      (''FilterDataStatusStopIterationNoBuffer'', FilterDataStatusStopIterationNoBuffer)]"

type_synonym FilterTrailersStatus = string

definition FilterTrailersStatusContinue :: FilterTrailersStatus where
  "FilterTrailersStatusContinue = ''Continue''"

definition FilterTrailersStatusStopIteration :: FilterTrailersStatus where
  "FilterTrailersStatusStopIteration = ''StopIteration''"

definition FilterTrailersStatus_consts :: "(string \<times> FilterTrailersStatus) list" where
  "FilterTrailersStatus_consts =
     [(''FilterTrailersStatusContinue'', FilterTrailersStatusContinue),
      (''FilterTrailersStatusStopIteration'', FilterTrailersStatusStopIteration)]"

text \<open>
  The status types of the file are the named string types whose name ends in \<open>Status\<close>;
  \<open>type_decls\<close> lists every \<open>type T string\<close> declaration of the file, in source order.
\<close>

definition type_decls :: "string list" where
  "type_decls =
     [''StreamResetReason'', ''FilterHeadersStatus'', ''FilterDataStatus'',
      ''FilterTrailersStatus'']"

definition has_suffix :: "string \<Rightarrow> string \<Rightarrow> bool" where
  "has_suffix suf s = (length suf \<le> length s \<and> drop (length s - length suf) s = suf)"

definition status_types :: "string list" where
  "status_types = filter (has_suffix ''Status'') type_decls"

text \<open>The variant an identifier names: the identifier without its type's prefix.\<close>

definition variant_name :: "string \<Rightarrow> string \<Rightarrow> string" where
  "variant_name prefix ident = drop (length prefix) ident"

subsection \<open>Interfaces\<close>

text \<open>
  An interface declaration is the list of its methods, embedded interfaces first, as Go's
  method sets are formed. A method is its name, its parameters (name and type) and its
  result types.
\<close>

datatype go_type =
    T_string
  | T_bool
  | T_error
  | T_empty_interface
  | T_map_string_string
  | T_named string

datatype method_sig = Method (m_name: string) (m_params: "(string \<times> go_type) list")
  (m_results: "go_type list")

definition StreamEventListener :: "method_sig list" where
  "StreamEventListener =
     [Method ''OnResetStream'' [(''reason'', T_named ''StreamResetReason'')] [],
      Method ''OnAboveWriteBufferHighWatermark'' [] [],
      Method ''OnBelowWriteBufferLowWatermark'' [] []]"

definition StreamEncoder :: "method_sig list" where
  "StreamEncoder =
     [Method ''EncodeHeaders'' [(''headers'', T_empty_interface), (''endStream'', T_bool)] [T_error],
      Method ''EncodeData'' [(''data'', T_named ''IoBuffer''), (''endStream'', T_bool)] [T_error],
      Method ''EncodeTrailers'' [(''trailers'', T_map_string_string)] [T_error],
      Method ''GetStream'' [] [T_named ''Stream'']]"

definition StreamDecoder :: "method_sig list" where
  "StreamDecoder =
     [Method ''OnDecodeHeaders'' [(''headers'', T_map_string_string), (''endStream'', T_bool)] [],
      Method ''OnDecodeData'' [(''data'', T_named ''IoBuffer''), (''endStream'', T_bool)] [],
      Method ''OnDecodeTrailers'' [(''trailers'', T_map_string_string)] []]"

definition StreamConnection :: "method_sig list" where
  "StreamConnection =
     [Method ''Dispatch'' [(''buffer'', T_named ''IoBuffer'')] [],
      Method ''Protocol'' [] [T_named ''Protocol''],
      Method ''GoAway'' [] [],
      Method ''OnUnderlyingConnectionAboveWriteBufferHighWatermark'' [] [],
      Method ''OnUnderlyingConnectionBelowWriteBufferLowWatermark'' [] []]"

definition ClientStreamConnection :: "method_sig list" where
  "ClientStreamConnection =
     StreamConnection @
     [Method ''NewStream''
        [(''streamId'', T_string), (''responseDecoder'', T_named ''StreamDecoder'')]
        [T_named ''StreamEncoder'']]"

definition StreamConnectionEventListener :: "method_sig list" where
  "StreamConnectionEventListener = [Method ''OnGoAway'' [] []]"

definition ServerStreamConnectionEventListener :: "method_sig list" where
  "ServerStreamConnectionEventListener =
     StreamConnectionEventListener @
     [Method ''NewStream''
        [(''streamId'', T_string), (''responseEncoder'', T_named ''StreamEncoder'')]
        [T_named ''StreamDecoder'']]"

text \<open>Looking a method up by name, and the types of a signature without parameter names.\<close>

definition method_of :: "method_sig list \<Rightarrow> string \<Rightarrow> method_sig option" where
  "method_of iface n = find (\<lambda>m. m_name m = n) iface"

definition sig_types :: "method_sig \<Rightarrow> go_type list \<times> go_type list" where
  "sig_types m = (map snd (m_params m), m_results m)"

text \<open>Exchanging the two roles of a stream in a type, and in a signature.\<close>

fun swap_role :: "go_type \<Rightarrow> go_type" where
  "swap_role (T_named n) =
     (if n = ''StreamDecoder'' then T_named ''StreamEncoder''
      else if n = ''StreamEncoder'' then T_named ''StreamDecoder''
      else T_named n)"
| "swap_role t = t"

definition swap_roles :: "go_type list \<times> go_type list \<Rightarrow> go_type list \<times> go_type list" where
  "swap_roles s = (map swap_role (fst s), map swap_role (snd s))"

section \<open>A stream's two directions\<close>

text \<open>
  The frames of one direction, as the parameters of \<open>StreamEncoder\<close> and
  \<open>StreamDecoder\<close> give them: headers and data carry an \<open>endStream\<close> flag, trailers
  carry none. Header and trailer maps are association lists, data is a byte string.
\<close>

datatype frame =
    Headers "(string \<times> string) list" bool
  | Data string bool
  | Trailers "(string \<times> string) list"

datatype direction = Encode | Decode

datatype stream_error = ContractViolation

text \<open>
  Modelled from the spec: whether a frame signals the end of its direction. The
  implementations of \<open>StreamEncoder\<close> and of the connection that calls \<open>StreamDecoder\<close>
  are not under src/, only the two interface declarations are. The spec: "once
  endStream=true is signaled (on headers, data, or trailers) no further frames may be
  sent/received for that direction; trailers, if sent, always close the direction".
\<close>

fun ends_stream :: "frame \<Rightarrow> bool" where
  "ends_stream (Headers _ e) = e"
| "ends_stream (Data _ e) = e"
| "ends_stream (Trailers _) = True"

text \<open>
  Modelled from the spec: the state the engine keeps for one stream, as far as the end of
  its directions goes (the engine is not under src/): for each direction, whether its end
  has been signaled.
\<close>

record stream =
  encode_ended :: bool
  decode_ended :: bool

text \<open>Modelled from the spec: reading and setting the flag of a direction.\<close>

fun ended :: "direction \<Rightarrow> stream \<Rightarrow> bool" where
  "ended Encode s = encode_ended s"
| "ended Decode s = decode_ended s"

fun set_ended :: "direction \<Rightarrow> bool \<Rightarrow> stream \<Rightarrow> stream" where
  "set_ended Encode b s = s\<lparr>encode_ended := b\<rparr>"
| "set_ended Decode b s = s\<lparr>decode_ended := b\<rparr>"

text \<open>
  Modelled from the spec: the engine's handling of one frame on one direction (not under
  src/). "endStream=true on any of them is an assertion that no further encode calls will
  occur for that stream's outbound direction; a violation (encoding after endStream) is a
  programming-contract error the engine must reject", and the decoder callbacks are
  invoked "at most once with endStream=true terminating the inbound direction". A frame
  on an ended direction is rejected with the contract-violation signal and goes nowhere;
  any other frame is passed on (to the codec when encoding, to the decoder's callback when
  decoding) and ends the direction if it says so. The result is the error, the new state,
  and the frames passed on.
\<close>

definition offer :: "direction \<Rightarrow> frame \<Rightarrow> stream \<Rightarrow> stream_error option \<times> stream \<times> frame list" where
  "offer d f s =
     (if ended d s then (Some ContractViolation, s, [])
      else (None, set_ended d (ends_stream f) s, [f]))"

text \<open>
  Modelled from the spec: the three methods of \<open>StreamEncoder\<close> and the delivery of the
  three callbacks of \<open>StreamDecoder\<close>, with the parameters the interfaces declare, on the
  engine above. The encoder methods return the error; the callbacks return nothing, so
  delivery gives only the new state and the callbacks made.
\<close>

definition EncodeHeaders ::
  "(string \<times> string) list \<Rightarrow> bool \<Rightarrow> stream \<Rightarrow> stream_error option \<times> stream \<times> frame list" where
  "EncodeHeaders headers endStream s = offer Encode (Headers headers endStream) s"

definition EncodeData ::
  "string \<Rightarrow> bool \<Rightarrow> stream \<Rightarrow> stream_error option \<times> stream \<times> frame list" where
  "EncodeData data endStream s = offer Encode (Data data endStream) s"

definition EncodeTrailers ::
  "(string \<times> string) list \<Rightarrow> stream \<Rightarrow> stream_error option \<times> stream \<times> frame list" where
  "EncodeTrailers trailers s = offer Encode (Trailers trailers) s"

definition OnDecodeHeaders ::
  "(string \<times> string) list \<Rightarrow> bool \<Rightarrow> stream \<Rightarrow> stream \<times> frame list" where
  "OnDecodeHeaders headers endStream s = snd (offer Decode (Headers headers endStream) s)"

definition OnDecodeData :: "string \<Rightarrow> bool \<Rightarrow> stream \<Rightarrow> stream \<times> frame list" where
  "OnDecodeData data endStream s = snd (offer Decode (Data data endStream) s)"

definition OnDecodeTrailers :: "(string \<times> string) list \<Rightarrow> stream \<Rightarrow> stream \<times> frame list" where
  "OnDecodeTrailers trailers s = snd (offer Decode (Trailers trailers) s)"

text \<open>
  Modelled from the spec: a history of a stream, any frames on either direction in any
  order, and what the engine answers to each: the error and the frames passed on.
\<close>

fun run :: "stream \<Rightarrow> (direction \<times> frame) list \<Rightarrow> (stream_error option \<times> frame list) list" where
  "run s [] = []"
| "run s ((d, f) # ops) =
     (case offer d f s of (e, s', out) \<Rightarrow> (e, out) # run s' ops)"

section \<open>Decode failures and the stream's listeners\<close>

type_synonym stream_listener = nat

text \<open>
  Modelled from the spec: what the codec hands the engine for one stream as it decodes
  inbound bytes (codec and engine are not under src/): a decoded frame, or a decode
  failure, whose scope is the single stream or the whole connection.
\<close>

datatype failure_scope = SingleStream | WholeConnection

datatype inbound = Decoded frame | DecodeFailed failure_scope

text \<open>
  Modelled from the spec: the reason a decode failure resets its stream with (the engine
  is not under src/; the reasons are the declared constants). The spec: protocol decode
  errors are "surfaced by resetting the affected stream with StreamRemoteReset or
  StreamConnectionFailed depending on scope (single stream vs. whole connection
  unrecoverable)".
\<close>

fun failure_reason :: "failure_scope \<Rightarrow> StreamResetReason" where
  "failure_reason SingleStream = StreamRemoteReset"
| "failure_reason WholeConnection = StreamConnectionFailed"

text \<open>
  Modelled from the spec: the calls the engine makes on the objects attached to a stream
  (the engine is not under src/; the interfaces it calls are): a callback of the stream's
  \<open>StreamDecoder\<close> with a frame, or \<open>OnResetStream\<close> of a registered
  \<open>StreamEventListener\<close> with a reason. Neither call has a result, as declared.
\<close>

datatype upcall = CallOnDecode frame | CallOnResetStream stream_listener StreamResetReason

text \<open>
  Modelled from the spec: a stream as the engine holds it on the inbound side (not under
  src/): its two directions, its registered listeners, and whether it has been reset.
\<close>

record inbound_stream =
  directions :: stream
  listeners :: "stream_listener list"
  was_reset :: bool

text \<open>
  Modelled from the spec: \<open>Stream.ResetStream\<close> (declared in src/, implemented
  elsewhere). The spec: it "synchronously notifies all registered listeners'
  OnResetStream(reason) exactly once, then the stream becomes unusable"; a second call
  "never double-notifies".
\<close>

definition ResetStream :: "StreamResetReason \<Rightarrow> inbound_stream \<Rightarrow> inbound_stream \<times> upcall list" where
  "ResetStream reason s =
     (if was_reset s then (s, [])
      else (s\<lparr>was_reset := True\<rparr>, map (\<lambda>l. CallOnResetStream l reason) (listeners s)))"

text \<open>
  Modelled from the spec: the decoder callback that a frame goes to, by its kind, on the
  engine of the section above.
\<close>

fun on_decode :: "frame \<Rightarrow> stream \<Rightarrow> stream \<times> frame list" where
  "on_decode (Headers headers endStream) s = OnDecodeHeaders headers endStream s"
| "on_decode (Data data endStream) s = OnDecodeData data endStream s"
| "on_decode (Trailers trailers) s = OnDecodeTrailers trailers s"

text \<open>
  Modelled from the spec: the engine's handling of one inbound item (not under src/). A
  frame goes to the decoder callback of its kind, unless the stream has been reset
  ("further encode/decode calls on a reset stream fail"). A decode failure is "reported
  upward via StreamEventListener.OnResetStream, never by returning an error from decoder
  callbacks": the engine resets the stream with the failure's reason. The result is the
  new state and the calls made.
\<close>

fun dispatch_item :: "inbound \<Rightarrow> inbound_stream \<Rightarrow> inbound_stream \<times> upcall list" where
  "dispatch_item (Decoded f) s =
     (if was_reset s then (s, [])
      else (case on_decode f (directions s) of
              (d, out) \<Rightarrow> (s\<lparr>directions := d\<rparr>, map CallOnDecode out)))"
| "dispatch_item (DecodeFailed scope) s = ResetStream (failure_reason scope) s"

text \<open>
  Modelled from the spec: an inbound history of a stream, and all the calls the engine
  makes over it, in order.
\<close>

fun dispatch_all :: "inbound_stream \<Rightarrow> inbound list \<Rightarrow> upcall list" where
  "dispatch_all s [] = []"
| "dispatch_all s (x # xs) =
     (case dispatch_item x s of (s', calls) \<Rightarrow> calls @ dispatch_all s' xs)"

section \<open>Properties of the listener\<close>

subsection \<open>What each operation can emit, and what it leaves alone\<close>

lemma accept_events:
  "e \<in> set (snd (accept res l)) \<Longrightarrow> e = EvAccept (rawl l) \<or> (\<exists>rawc. e = EvGo rawc)"
  by (auto simp: accept_def split: sum.splits)

lemma accept_loop_events:
  "e \<in> set (snd (accept_loop l rs)) \<Longrightarrow>
     e = EvAccept (rawl l) \<or> (\<exists>rawc. e = EvGo rawc) \<or> (\<exists>s. e = EvLog s)"
proof (induction rs)
  case Nil
  then show ?case by simp
next
  case (Cons r rs)
  then show ?case
    by (cases r) (auto simp: accept_def Let_def split: prod.splits if_splits)
qed

lemma serve_events:
  "e \<in> set (snd (serve l rs)) \<Longrightarrow>
     e = EvAccept (rawl l) \<or> (\<exists>rawc. e = EvGo rawc) \<or> (\<exists>s. e = EvLog s)"
  using accept_loop_events [of e l rs] by (auto simp: serve_def split: if_splits)

lemma Start_inherited:
  "rawl l = Some r \<Longrightarrow> Start lres rs l = (fst (serve l rs), l, snd (serve l rs))"
  by (simp add: Start_def split: prod.splits)

lemma listen_fields:
  "listen lres l = (x, l', evs) \<Longrightarrow>
     name l' = name l \<and> localAddress l' = localAddress l \<and> bindToPort l' = bindToPort l \<and>
     listenerTag l' = listenerTag l \<and> perConnBufferLimitBytes l' = perConnBufferLimitBytes l \<and>
     handOffRestoredDestinationConnections l' = handOffRestoredDestinationConnections l \<and>
     cb l' = cb l"
  by (auto simp: listen_def split: option.splits net_addr.splits sum.splits)

lemma Start_fields:
  "Start lres rs l = (out, l', evs) \<Longrightarrow>
     name l' = name l \<and> localAddress l' = localAddress l \<and> bindToPort l' = bindToPort l \<and>
     listenerTag l' = listenerTag l \<and> perConnBufferLimitBytes l' = perConnBufferLimitBytes l \<and>
     handOffRestoredDestinationConnections l' = handOffRestoredDestinationConnections l \<and>
     cb l' = cb l"
  unfolding Start_def
  by (auto split: if_splits prod.splits sum.splits option.splits dest!: listen_fields)

lemma run_calls_fields:
  "name (run_calls l cs) = name l \<and> localAddress (run_calls l cs) = localAddress l \<and>
   bindToPort (run_calls l cs) = bindToPort l \<and>
   listenerTag (run_calls l cs) = listenerTag l \<and>
   perConnBufferLimitBytes (run_calls l cs) = perConnBufferLimitBytes l \<and>
   handOffRestoredDestinationConnections (run_calls l cs) = handOffRestoredDestinationConnections l"
proof (induction l cs rule: run_calls.induct)
  case (1 l)
  then show ?case by simp
next
  case (2 l c cs)
  then show ?case by (simp add: SetListenerCallbacks_def)
next
  case (3 l lres rs cs)
  obtain out l' evs where st: "Start lres rs l = (out, l', evs)"
    by (cases "Start lres rs l") auto
  note f = Start_fields [OF st]
  show ?case
  proof (cases out)
    case (Panicked p)
    with st f show ?thesis by simp
  next
    case Returned
    with st f "3.IH"(1) [of out "(l', evs)" l' evs] show ?thesis by simp
  next
    case Blocked
    with st f "3.IH"(2) [of out "(l', evs)" l' evs] show ?thesis by simp
  qed
qed

subsection \<open>accept\<close>

text \<open>
  C6. For every connection that the raw listener's \<open>Accept\<close> returns, \<open>accept\<close> returns
  nil and starts exactly one goroutine, and that goroutine calls \<open>OnAccept\<close> of the
  registered callback exactly once, with that connection and the hand-off flag of the
  configuration the listener was built from. The listener may have gone through any calls
  of \<open>Start\<close> and \<open>SetListenerCallbacks\<close> before \<open>accept\<close> (\<open>cs\<close>) and between
  \<open>accept\<close> and the moment the goroutine runs (\<open>cs'\<close>); the callback is the one
  registered at that moment.
\<close>

theorem accept_invokes_OnAccept_once:
  assumes "cb (run_calls (run_calls (newListener lc) cs) cs') = Some c"
  shows "accept (Inr rawc) (run_calls (newListener lc) cs) =
           (None, [EvAccept (rawl (run_calls (newListener lc) cs)), EvGo rawc]) \<and>
         run_goroutines (run_calls (run_calls (newListener lc) cs) cs')
             (snd (accept (Inr rawc) (run_calls (newListener lc) cs))) =
           [EvOnAccept c rawc (lc_HandOffRestoredDestinationConnections lc)]"
proof -
  have "handOffRestoredDestinationConnections (run_calls (run_calls (newListener lc) cs) cs') =
          handOffRestoredDestinationConnections (newListener lc)"
    using run_calls_fields [of "run_calls (newListener lc) cs" cs']
      run_calls_fields [of "newListener lc" cs] by simp
  also have "\<dots> = lc_HandOffRestoredDestinationConnections lc"
    by (simp add: newListener_def Let_def)
  finally show ?thesis
    using assms by (simp add: accept_def accept_goroutine_def)
qed

theorem accept_invokes_OnAccept_once_witness:
  "accept (Inr 7)
     (run_calls (newListener \<lparr> lc_Name = ''egress'', lc_Addr = Some (TCPAddr ''127.0.0.1:2045''),
        lc_BindToPort = True, lc_ListenerTag = 1, lc_PerConnBufferLimitBytes = 1024,
        lc_HandOffRestoredDestinationConnections = True, lc_InheritListener = None \<rparr>)
        [CallStart (Inr 5) []])
     = (None, [EvAccept (Some 5), EvGo 7]) \<and>
   run_goroutines
     (run_calls (run_calls (newListener \<lparr> lc_Name = ''egress'',
        lc_Addr = Some (TCPAddr ''127.0.0.1:2045''),
        lc_BindToPort = True, lc_ListenerTag = 1, lc_PerConnBufferLimitBytes = 1024,
        lc_HandOffRestoredDestinationConnections = True, lc_InheritListener = None \<rparr>)
        [CallStart (Inr 5) []]) [CallSetListenerCallbacks (Some 3)])
     (snd (accept (Inr 7)
        (run_calls (newListener \<lparr> lc_Name = ''egress'',
           lc_Addr = Some (TCPAddr ''127.0.0.1:2045''),
           lc_BindToPort = True, lc_ListenerTag = 1, lc_PerConnBufferLimitBytes = 1024,
           lc_HandOffRestoredDestinationConnections = True, lc_InheritListener = None \<rparr>)
           [CallStart (Inr 5) []])))
     = [EvOnAccept 3 7 True]"
proof -
  let ?lc = "\<lparr> lc_Name = ''egress'', lc_Addr = Some (TCPAddr ''127.0.0.1:2045''),
        lc_BindToPort = True, lc_ListenerTag = 1, lc_PerConnBufferLimitBytes = 1024,
        lc_HandOffRestoredDestinationConnections = True, lc_InheritListener = None \<rparr>"
  have r: "rawl (run_calls (newListener ?lc) [CallStart (Inr 5) []]) = Some 5"
    by (simp add: newListener_def Start_def listen_def serve_def)
  have c: "cb (run_calls (run_calls (newListener ?lc) [CallStart (Inr 5) []])
             [CallSetListenerCallbacks (Some 3)]) = Some 3"
    by (simp add: SetListenerCallbacks_def)
  show ?thesis
    using accept_invokes_OnAccept_once [OF c, of 7] unfolding r ListenerConfig.select_convs .
qed

text \<open>
  Over the whole accept loop: one goroutine is started for each connection accepted, in
  the order of acceptance, and no other. When and in what order they run is up to the
  scheduler.
\<close>

lemma started_append: "started (xs @ ys) = started xs @ started ys"
  by (induction xs rule: started.induct) simp_all

lemma accept_loop_starts_one_per_connection:
  "started (snd (accept_loop l rs)) = accepted rs"
proof (induction rs)
  case Nil
  then show ?case by simp
next
  case (Cons r rs)
  then show ?case
    by (cases r) (auto simp: accept_def started_append Let_def split: prod.splits)
qed

lemma accept_loop_go:
  "EvGo rawc \<in> set (snd (accept_loop l rs)) \<Longrightarrow> Inr rawc \<in> set rs"
proof (induction rs)
  case Nil
  then show ?case by simp
next
  case (Cons r rs)
  then show ?case
    by (cases r) (auto simp: accept_def Let_def split: prod.splits if_splits)
qed

text \<open>
  C10. If the raw listener's \<open>Accept\<close> returns an error, \<open>accept\<close> returns that same
  error and starts no goroutine, so no \<open>OnAccept\<close> call comes of it. In general a
  goroutine is started for \<open>rawc\<close> exactly when \<open>Accept\<close> returned the connection
  \<open>rawc\<close>, and an \<open>OnAccept\<close> call with \<open>rawc\<close> comes of an \<open>accept\<close> exactly when
  \<open>Accept\<close> returned \<open>rawc\<close> and a callback is registered.
\<close>

theorem accept_error_returned:
  "accept (Inl err) l = (Some err, [EvAccept (rawl l)]) \<and>
   run_goroutines l' (snd (accept (Inl err) l)) = [] \<and>
   (EvGo rawc \<in> set (snd (accept res l))) = (res = Inr rawc) \<and>
   (EvOnAccept c rawc h \<in> set (run_goroutines l' (snd (accept res l)))) =
     (res = Inr rawc \<and> cb l' = Some c \<and> h = handOffRestoredDestinationConnections l')"
  by (cases res; cases "cb l'") (auto simp: accept_def accept_goroutine_def)

subsection \<open>Close\<close>

text \<open>
  C7. With a callback registered, \<open>Close\<close> calls its \<open>OnClose\<close> exactly once, before
  it closes the raw TCP listener, and returns what closing the raw listener returns.
\<close>

theorem Close_calls_OnClose_once_first:
  assumes "cb l = Some c"
  shows "Close rawClose l = (Inr (rawClose (rawl l)), [EvOnClose c, EvRawClose (rawl l)])"
  using assms by (simp add: Close_def)

theorem Close_calls_OnClose_once_first_witness:
  "Close (\<lambda>r. if r = None then Some (PlainError ''invalid argument'') else None)
     (SetListenerCallbacks (Some 3)
        (newListener \<lparr> lc_Name = ''egress'', lc_Addr = Some (TCPAddr ''127.0.0.1:2045''),
           lc_BindToPort = True, lc_ListenerTag = 1, lc_PerConnBufferLimitBytes = 1024,
           lc_HandOffRestoredDestinationConnections = True, lc_InheritListener = Some 5 \<rparr>))
   = (Inr None, [EvOnClose 3, EvRawClose (Some 5)])"
proof -
  let ?l = "SetListenerCallbacks (Some 3)
        (newListener \<lparr> lc_Name = ''egress'', lc_Addr = Some (TCPAddr ''127.0.0.1:2045''),
           lc_BindToPort = True, lc_ListenerTag = 1, lc_PerConnBufferLimitBytes = 1024,
           lc_HandOffRestoredDestinationConnections = True, lc_InheritListener = Some 5 \<rparr>)"
  have c: "cb ?l = Some 3" by (simp add: SetListenerCallbacks_def)
  have r: "rawl ?l = Some 5" by (simp add: SetListenerCallbacks_def newListener_def)
  show ?thesis
    using Close_calls_OnClose_once_first [OF c] unfolding r by simp
qed

subsection \<open>The getters\<close>

text \<open>
  C9. A listener built by \<open>NewListener\<close> reports its configuration unchanged, whatever
  calls of \<open>Start\<close> and \<open>SetListenerCallbacks\<close> came in between: \<open>Name\<close>, \<open>Addr\<close>,
  \<open>ListenerTag\<close> and \<open>PerConnBufferLimitBytes\<close> return the fields of the configuration.
\<close>

theorem getters_report_config:
  "NewListener (Some lc) = Inr (newListener lc) \<and>
   Name (run_calls (newListener lc) cs) = lc_Name lc \<and>
   Addr (run_calls (newListener lc) cs) = lc_Addr lc \<and>
   ListenerTag (run_calls (newListener lc) cs) = lc_ListenerTag lc \<and>
   PerConnBufferLimitBytes (run_calls (newListener lc) cs) = lc_PerConnBufferLimitBytes lc"
  using run_calls_fields [of "newListener lc" cs]
  by (simp add: NewListener_def Name_def Addr_def ListenerTag_def PerConnBufferLimitBytes_def
      newListener_def Let_def)

subsection \<open>Start and the inherited listener\<close>

lemma Start_fresh_failed:
  "rawl l = None \<Longrightarrow> localAddress l = Some (TCPAddr a) \<Longrightarrow>
     Start (Inl err) rs l =
       (Returned, l, [EvListenTCP a, EvLog (name l @ '' listen failed,  '' @ err_Error err)])"
  by (simp add: Start_def listen_def)

lemma Start_fresh_bound:
  "rawl l = None \<Longrightarrow> localAddress l = Some (TCPAddr a) \<Longrightarrow>
     Start (Inr r) rs l =
       (fst (serve (l\<lparr>rawl := Some r\<rparr>) rs), l\<lparr>rawl := Some r\<rparr>,
        EvListenTCP a # snd (serve (l\<lparr>rawl := Some r\<rparr>) rs))"
  by (simp add: Start_def listen_def split: prod.splits)

lemma Start_fresh_no_tcp_addr:
  "rawl l = None \<Longrightarrow> (\<forall>a. localAddress l \<noteq> Some (TCPAddr a)) \<Longrightarrow>
     Start lres rs l = (Panicked TypeAssertion, l, [])"
  by (auto simp: Start_def listen_def split: option.splits net_addr.splits)

text \<open>
  C8. If the configuration's \<open>InheritListener\<close> is not nil, \<open>NewListener\<close> adopts it as
  the raw listener, and a following \<open>Start\<close> never calls \<open>net.ListenTCP\<close> and accepts
  on the inherited listener only. If \<open>InheritListener\<close> is nil, \<open>Start\<close> goes through
  \<open>listen\<close> first: on a TCP address the first thing it does is the \<open>net.ListenTCP\<close>
  call, once, and every \<open>Accept\<close> comes after it, on the listener that call returned;
  on any other address the type assertion of \<open>listen\<close> panics before anything else.
\<close>

theorem Start_listens_iff_nothing_inherited:
  "(lc_InheritListener lc = Some r \<longrightarrow>
      rawl (newListener lc) = Some r \<and>
      (\<forall>e \<in> set (snd (snd (Start lres rs (newListener lc)))).
         (\<forall>a. e \<noteq> EvListenTCP a) \<and> (\<forall>x. e = EvAccept x \<longrightarrow> x = Some r))) \<and>
   (lc_InheritListener lc = None \<longrightarrow>
      rawl (newListener lc) = None \<and>
      (case lc_Addr lc of
         Some (TCPAddr a) \<Rightarrow>
           (\<exists>rest. snd (snd (Start lres rs (newListener lc))) = EvListenTCP a # rest \<and>
              (\<forall>e \<in> set rest.
                 (\<forall>a'. e \<noteq> EvListenTCP a') \<and> (\<forall>x. e = EvAccept x \<longrightarrow> (\<exists>r'. lres = Inr r' \<and> x = Some r'))))
       | _ \<Rightarrow> Start lres rs (newListener lc) = (Panicked TypeAssertion, newListener lc, [])))"
proof (intro conjI impI)
  assume inh: "lc_InheritListener lc = Some r"
  then show r: "rawl (newListener lc) = Some r"
    by (simp add: newListener_def)
  show "\<forall>e \<in> set (snd (snd (Start lres rs (newListener lc)))).
         (\<forall>a. e \<noteq> EvListenTCP a) \<and> (\<forall>x. e = EvAccept x \<longrightarrow> x = Some r)"
  proof
    fix e
    assume "e \<in> set (snd (snd (Start lres rs (newListener lc))))"
    then have "e \<in> set (snd (serve (newListener lc) rs))"
      by (simp add: Start_inherited [OF r])
    from serve_events [OF this] r
    show "(\<forall>a. e \<noteq> EvListenTCP a) \<and> (\<forall>x. e = EvAccept x \<longrightarrow> x = Some r)"
      by auto
  qed
next
  assume fresh: "lc_InheritListener lc = None"
  then show n: "rawl (newListener lc) = None"
    by (simp add: newListener_def)
  have addr: "localAddress (newListener lc) = lc_Addr lc"
    by (simp add: newListener_def Let_def)
  show "case lc_Addr lc of
         Some (TCPAddr a) \<Rightarrow>
           (\<exists>rest. snd (snd (Start lres rs (newListener lc))) = EvListenTCP a # rest \<and>
              (\<forall>e \<in> set rest.
                 (\<forall>a'. e \<noteq> EvListenTCP a') \<and> (\<forall>x. e = EvAccept x \<longrightarrow> (\<exists>r'. lres = Inr r' \<and> x = Some r'))))
       | _ \<Rightarrow> Start lres rs (newListener lc) = (Panicked TypeAssertion, newListener lc, [])"
  proof (cases "\<exists>a. lc_Addr lc = Some (TCPAddr a)")
    case False
    then have "Start lres rs (newListener lc) = (Panicked TypeAssertion, newListener lc, [])"
      using Start_fresh_no_tcp_addr [OF n] addr by simp
    with False show ?thesis
      by (auto split: option.splits net_addr.splits)
  next
    case True
    then obtain a where a: "lc_Addr lc = Some (TCPAddr a)" by blast
    then have la: "localAddress (newListener lc) = Some (TCPAddr a)"
      using addr by simp
    show ?thesis
    proof (cases lres)
      case (Inl err)
      then show ?thesis
        using a Start_fresh_failed [OF n la] by simp
    next
      case (Inr r')
      have "\<forall>e \<in> set (snd (serve ((newListener lc)\<lparr>rawl := Some r'\<rparr>) rs)).
              (\<forall>a'. e \<noteq> EvListenTCP a') \<and> (\<forall>x. e = EvAccept x \<longrightarrow> x = Some r')"
        using serve_events [of _ "(newListener lc)\<lparr>rawl := Some r'\<rparr>" rs] by auto
      then show ?thesis
        using a Inr Start_fresh_bound [OF n la, of r' rs] by auto
    qed
  qed
qed


theorem Start_listens_iff_nothing_inherited_witness:
  "rawl (newListener \<lparr> lc_Name = ''egress'', lc_Addr = Some (TCPAddr ''127.0.0.1:2045''),
      lc_BindToPort = True, lc_ListenerTag = 1, lc_PerConnBufferLimitBytes = 1024,
      lc_HandOffRestoredDestinationConnections = True, lc_InheritListener = Some 5 \<rparr>) = Some 5 \<and>
   EvListenTCP ''127.0.0.1:2045'' \<notin>
     set (snd (snd (Start (Inr 9) [Inr 7, Inl (OpError True False ''i/o timeout'')]
       (newListener \<lparr> lc_Name = ''egress'', lc_Addr = Some (TCPAddr ''127.0.0.1:2045''),
          lc_BindToPort = True, lc_ListenerTag = 1, lc_PerConnBufferLimitBytes = 1024,
          lc_HandOffRestoredDestinationConnections = True, lc_InheritListener = Some 5 \<rparr>)))) \<and>
   rawl (newListener \<lparr> lc_Name = ''egress'', lc_Addr = Some (TCPAddr ''127.0.0.1:2045''),
      lc_BindToPort = True, lc_ListenerTag = 1, lc_PerConnBufferLimitBytes = 1024,
      lc_HandOffRestoredDestinationConnections = True, lc_InheritListener = None \<rparr>) = None \<and>
   (\<exists>rest. snd (snd (Start (Inr 9) [Inr 7, Inl (OpError True False ''i/o timeout'')]
       (newListener \<lparr> lc_Name = ''egress'', lc_Addr = Some (TCPAddr ''127.0.0.1:2045''),
          lc_BindToPort = True, lc_ListenerTag = 1, lc_PerConnBufferLimitBytes = 1024,
          lc_HandOffRestoredDestinationConnections = True, lc_InheritListener = None \<rparr>)))
      = EvListenTCP ''127.0.0.1:2045'' # rest)"
proof -
  let ?inherited = "\<lparr> lc_Name = ''egress'', lc_Addr = Some (TCPAddr ''127.0.0.1:2045''),
      lc_BindToPort = True, lc_ListenerTag = 1, lc_PerConnBufferLimitBytes = 1024,
      lc_HandOffRestoredDestinationConnections = True, lc_InheritListener = Some 5 \<rparr>"
  let ?fresh = "\<lparr> lc_Name = ''egress'', lc_Addr = Some (TCPAddr ''127.0.0.1:2045''),
      lc_BindToPort = True, lc_ListenerTag = 1, lc_PerConnBufferLimitBytes = 1024,
      lc_HandOffRestoredDestinationConnections = True, lc_InheritListener = None \<rparr>"
  let ?rs = "[Inr 7, Inl (OpError True False ''i/o timeout'')]"
  have i: "lc_InheritListener ?inherited = Some 5" by simp
  have f: "lc_InheritListener ?fresh = None" by simp
  have a: "lc_Addr ?fresh = Some (TCPAddr ''127.0.0.1:2045'')" by simp
  from Start_listens_iff_nothing_inherited [of ?inherited 5 "Inr 9" ?rs] i
  have 1: "rawl (newListener ?inherited) = Some 5 \<and>
           EvListenTCP ''127.0.0.1:2045'' \<notin> set (snd (snd (Start (Inr 9) ?rs (newListener ?inherited))))"
    by blast
  from Start_listens_iff_nothing_inherited [of ?fresh 5 "Inr 9" ?rs] f
  have "rawl (newListener ?fresh) = None \<and>
      (case lc_Addr ?fresh of
         Some (TCPAddr a) \<Rightarrow>
           (\<exists>rest. snd (snd (Start (Inr 9) ?rs (newListener ?fresh))) = EvListenTCP a # rest \<and>
              (\<forall>e \<in> set rest.
                 (\<forall>a'. e \<noteq> EvListenTCP a') \<and>
                 (\<forall>x. e = EvAccept x \<longrightarrow> (\<exists>r'. Inr 9 = (Inr r' :: go_error + tcp_listener) \<and> x = Some r'))))
       | _ \<Rightarrow> Start (Inr 9) ?rs (newListener ?fresh) = (Panicked TypeAssertion, newListener ?fresh, []))"
    by blast
  then have 2: "rawl (newListener ?fresh) = None \<and>
      (\<exists>rest. snd (snd (Start (Inr 9) ?rs (newListener ?fresh))) = EvListenTCP ''127.0.0.1:2045'' # rest)"
    unfolding a by auto
  from 1 2 show ?thesis by blast
qed

section \<open>Properties of the declarations\<close>

subsection \<open>The status vocabularies\<close>

lemma status_types_eq: "status_types = [''FilterHeadersStatus'', ''FilterDataStatus'', ''FilterTrailersStatus'']"
  by (simp add: status_types_def type_decls_def has_suffix_def)

lemma headers_status_consts: "map snd FilterHeadersStatus_consts = [''Continue'', ''StopIteration''] \<and>
   map (variant_name ''FilterHeadersStatus'' \<circ> fst) FilterHeadersStatus_consts =
     map snd FilterHeadersStatus_consts \<and>
   distinct (map snd FilterHeadersStatus_consts)"
  by (simp add: variant_name_def
      FilterHeadersStatus_consts_def FilterHeadersStatusContinue_def
      FilterHeadersStatusStopIteration_def)

lemma data_status_consts: "map snd FilterDataStatus_consts =
     [''Continue'', ''StopIterationAndBuffer'', ''StopIterationAndWatermark'',
      ''StopIterationNoBuffer''] \<and>
   map (variant_name ''FilterDataStatus'' \<circ> fst) FilterDataStatus_consts =
     map snd FilterDataStatus_consts \<and>
   distinct (map snd FilterDataStatus_consts)"
  by (simp add: variant_name_def
      FilterDataStatus_consts_def FilterDataStatusContinue_def
      FilterDataStatusStopIterationAndBuffer_def FilterDataStatusStopIterationAndWatermark_def
      FilterDataStatusStopIterationNoBuffer_def)

lemma trailers_status_consts: "map snd FilterTrailersStatus_consts = [''Continue'', ''StopIteration''] \<and>
   map (variant_name ''FilterTrailersStatus'' \<circ> fst) FilterTrailersStatus_consts =
     map snd FilterTrailersStatus_consts \<and>
   distinct (map snd FilterTrailersStatus_consts)"
  by (simp add: variant_name_def
      FilterTrailersStatus_consts_def FilterTrailersStatusContinue_def
      FilterTrailersStatusStopIteration_def)

text \<open>
  C4. The filter-status vocabulary is three enumerations, \<open>FilterHeadersStatus\<close>,
  \<open>FilterDataStatus\<close> and \<open>FilterTrailersStatus\<close>, whose declared constants are, in
  order: Continue, StopIteration; Continue, StopIterationAndBuffer,
  StopIterationAndWatermark, StopIterationNoBuffer; Continue, StopIteration. Within each
  enumeration the values are pairwise distinct, and each value is the constant's
  identifier without the type's name in front.
\<close>

theorem filter_status_vocabulary:
  "status_types = [''FilterHeadersStatus'', ''FilterDataStatus'', ''FilterTrailersStatus''] \<and>
   map snd FilterHeadersStatus_consts = [''Continue'', ''StopIteration''] \<and>
   map (variant_name ''FilterHeadersStatus'' \<circ> fst) FilterHeadersStatus_consts =
     map snd FilterHeadersStatus_consts \<and>
   distinct (map snd FilterHeadersStatus_consts) \<and>
   map snd FilterDataStatus_consts =
     [''Continue'', ''StopIterationAndBuffer'', ''StopIterationAndWatermark'',
      ''StopIterationNoBuffer''] \<and>
   map (variant_name ''FilterDataStatus'' \<circ> fst) FilterDataStatus_consts =
     map snd FilterDataStatus_consts \<and>
   distinct (map snd FilterDataStatus_consts) \<and>
   map snd FilterTrailersStatus_consts = [''Continue'', ''StopIteration''] \<and>
   map (variant_name ''FilterTrailersStatus'' \<circ> fst) FilterTrailersStatus_consts =
     map snd FilterTrailersStatus_consts \<and>
   distinct (map snd FilterTrailersStatus_consts)"
  using status_types_eq headers_status_consts data_status_consts trailers_status_consts
  by blast

subsection \<open>The reset reasons\<close>

text \<open>
  C5, as stated, fails: the values of the five constants are not the five names
  ConnectionTermination, ConnectionFailed, LocalReset, Overflow, RemoteReset. Three
  values keep the \<open>Stream\<close> prefix of their identifier.
\<close>

theorem reset_reason_values_differ_from_names:
  "set (map snd StreamResetReason_consts) \<noteq>
     {''ConnectionTermination'', ''ConnectionFailed'', ''LocalReset'', ''Overflow'',
      ''RemoteReset''} \<and>
   StreamLocalReset \<noteq> ''LocalReset'' \<and>
   StreamOverflow \<noteq> ''Overflow'' \<and>
   StreamRemoteReset \<noteq> ''RemoteReset''"
proof -
  have "''LocalReset'' \<notin> set (map snd StreamResetReason_consts)"
    by (simp add: StreamResetReason_consts_def StreamConnectionTermination_def
        StreamConnectionFailed_def StreamLocalReset_def StreamOverflow_def
        StreamRemoteReset_def)
  then have "set (map snd StreamResetReason_consts) \<noteq>
     {''ConnectionTermination'', ''ConnectionFailed'', ''LocalReset'', ''Overflow'',
      ''RemoteReset''}"
    by blast
  then show ?thesis
    by (simp add: StreamLocalReset_def StreamOverflow_def StreamRemoteReset_def)
qed

text \<open>
  C5, amended. \<open>StreamResetReason\<close> has exactly five declared constants with pairwise
  distinct values. Their identifiers, without the \<open>Stream\<close> prefix, are
  ConnectionTermination, ConnectionFailed, LocalReset, Overflow and RemoteReset; their
  values are ConnectionTermination, ConnectionFailed, StreamLocalReset, StreamOverflow
  and StreamRemoteReset.
\<close>

theorem reset_reason_five_distinct:
  "length StreamResetReason_consts = 5 \<and>
   distinct (map snd StreamResetReason_consts) \<and>
   map (variant_name ''Stream'' \<circ> fst) StreamResetReason_consts =
     [''ConnectionTermination'', ''ConnectionFailed'', ''LocalReset'', ''Overflow'',
      ''RemoteReset''] \<and>
   map snd StreamResetReason_consts =
     [''ConnectionTermination'', ''ConnectionFailed'', ''StreamLocalReset'', ''StreamOverflow'',
      ''StreamRemoteReset'']"
  by (simp add: variant_name_def StreamResetReason_consts_def StreamConnectionTermination_def
      StreamConnectionFailed_def StreamLocalReset_def StreamOverflow_def StreamRemoteReset_def)

subsection \<open>The two NewStream methods\<close>

lemma swap_role_involution: "swap_role (swap_role t) = t"
  by (cases t) auto

lemma swap_roles_involution: "swap_roles (swap_roles s) = s"
  by (cases s) (simp add: swap_roles_def swap_role_involution comp_def)

text \<open>
  C2. \<open>ClientStreamConnection.NewStream\<close> takes a stream id and a \<open>StreamDecoder\<close> and
  returns a \<open>StreamEncoder\<close>; \<open>ServerStreamConnectionEventListener.NewStream\<close> takes a
  stream id and a \<open>StreamEncoder\<close> and returns a \<open>StreamDecoder\<close>. Each signature is
  the other with the two roles exchanged.
\<close>

theorem NewStream_mirrored:
  "method_of ClientStreamConnection ''NewStream'' =
     Some (Method ''NewStream''
       [(''streamId'', T_string), (''responseDecoder'', T_named ''StreamDecoder'')]
       [T_named ''StreamEncoder'']) \<and>
   method_of ServerStreamConnectionEventListener ''NewStream'' =
     Some (Method ''NewStream''
       [(''streamId'', T_string), (''responseEncoder'', T_named ''StreamEncoder'')]
       [T_named ''StreamDecoder'']) \<and>
   map_option (swap_roles \<circ> sig_types) (method_of ClientStreamConnection ''NewStream'') =
     map_option sig_types (method_of ServerStreamConnectionEventListener ''NewStream'') \<and>
   map_option (swap_roles \<circ> sig_types)
       (method_of ServerStreamConnectionEventListener ''NewStream'') =
     map_option sig_types (method_of ClientStreamConnection ''NewStream'')"
  by (simp add: method_of_def sig_types_def swap_roles_def ClientStreamConnection_def
      StreamConnection_def ServerStreamConnectionEventListener_def
      StreamConnectionEventListener_def)

section \<open>Properties of a stream's directions\<close>

lemma offer_keeps_ended: "ended d s \<Longrightarrow> ended d (fst (snd (offer d' f s)))"
  by (cases d; cases d') (simp_all add: offer_def)

lemma run_length: "length (run s ops) = length ops"
  by (induction ops arbitrary: s) (auto split: prod.splits)

lemma ended_rejects:
  "ended d s \<Longrightarrow> k < length ops \<Longrightarrow> fst (ops ! k) = d \<Longrightarrow>
     run s ops ! k = (Some ContractViolation, [])"
proof (induction ops arbitrary: s k)
  case Nil
  then show ?case by simp
next
  case (Cons op ops)
  obtain d' f where op: "op = (d', f)" by (cases op)
  obtain e s' out where o: "offer d' f s = (e, s', out)" by (cases "offer d' f s")
  have s': "ended d s'"
    using offer_keeps_ended [OF Cons.prems(1), of d' f] o by simp
  show ?case
  proof (cases k)
    case 0
    with Cons.prems op o show ?thesis by (auto simp: offer_def)
  next
    case (Suc k')
    with Cons.prems Cons.IH [OF s', of k'] op o show ?thesis by simp
  qed
qed

lemma offer_accepted_end:
  "offer d f s = (None, s', out) \<Longrightarrow> ends_stream f \<Longrightarrow> ended d s'"
  by (cases d) (auto simp: offer_def split: if_splits)

lemma offer_trailers_ends: "ended d (fst (snd (offer d (Trailers t) s)))"
  by (cases d) (simp_all add: offer_def)

text \<open>
  C1. On either direction of a stream, once a frame with \<open>endStream\<close> set (headers or
  data with the flag, or trailers) has been accepted, every later frame on that direction
  is rejected with the contract-violation signal and passed on to nobody: no later
  \<open>EncodeHeaders\<close>, \<open>EncodeData\<close> or \<open>EncodeTrailers\<close> succeeds and no later
  \<open>OnDecodeHeaders\<close>, \<open>OnDecodeData\<close> or \<open>OnDecodeTrailers\<close> is delivered, whatever
  happens on the other direction in between. Trailers always leave their direction ended.
\<close>

theorem no_frame_after_endStream:
  assumes "i < j" and "j < length ops"
    and "fst (ops ! i) = fst (ops ! j)"
    and "ends_stream (snd (ops ! i))"
    and "fst (run s ops ! i) = None"
  shows "run s ops ! j = (Some ContractViolation, []) \<and>
         ended Encode (fst (snd (EncodeTrailers t s'))) \<and>
         ended Decode (fst (OnDecodeTrailers t s'))"
proof -
  have "run s ops ! j = (Some ContractViolation, [])"
    using assms
  proof (induction ops arbitrary: s i j)
    case Nil
    then show ?case by simp
  next
    case (Cons op ops)
    obtain d f where op: "op = (d, f)" by (cases op)
    obtain e s' out where o: "offer d f s = (e, s', out)" by (cases "offer d f s")
    from Cons.prems(1) obtain j' where j: "j = Suc j'" by (cases j) auto
    show ?case
    proof (cases i)
      case 0
      with Cons.prems op o have "e = None" "ends_stream f" by auto
      with o have "ended d s'" using offer_accepted_end by blast
      moreover have "j' < length ops" "fst (ops ! j') = d"
        using Cons.prems j 0 op by auto
      ultimately have "run s' ops ! j' = (Some ContractViolation, [])"
        by (rule ended_rejects)
      with j op o show ?thesis by simp
    next
      case (Suc i')
      with Cons.prems j op o have "run s' ops ! j' = (Some ContractViolation, [])"
        by (intro Cons.IH [of i' j' s']) auto
      with j op o show ?thesis by simp
    qed
  qed
  moreover have "ended Encode (fst (snd (EncodeTrailers t s')))"
    using offer_trailers_ends [of Encode t s'] by (simp add: EncodeTrailers_def)
  moreover have "ended Decode (fst (OnDecodeTrailers t s'))"
    using offer_trailers_ends [of Decode t s'] by (simp add: OnDecodeTrailers_def)
  ultimately show ?thesis by blast
qed

theorem no_frame_after_endStream_witness:
  "run \<lparr>encode_ended = False, decode_ended = False\<rparr>
     [(Encode, Headers [(''service'', ''echo'')] False), (Encode, Data ''hello'' True),
      (Decode, Headers [] False), (Encode, Trailers [])] ! 3
   = (Some ContractViolation, []) \<and>
   ended Encode (fst (snd (EncodeTrailers [] \<lparr>encode_ended = False, decode_ended = False\<rparr>))) \<and>
   ended Decode (fst (OnDecodeTrailers [] \<lparr>encode_ended = False, decode_ended = False\<rparr>))"
proof -
  let ?ops = "[(Encode, Headers [(''service'', ''echo'')] False), (Encode, Data ''hello'' True),
      (Decode, Headers [] False), (Encode, Trailers [])]"
  let ?s = "\<lparr>encode_ended = False, decode_ended = False\<rparr>"
  have 1: "(1::nat) < 3" by simp
  have 2: "3 < length ?ops" by simp
  have 3: "fst (?ops ! 1) = fst (?ops ! 3)" by simp
  have 4: "ends_stream (snd (?ops ! 1))" by simp
  have 5: "fst (run ?s ?ops ! 1) = None" by (simp add: offer_def)
  show ?thesis
    by (rule no_frame_after_endStream [OF 1 2 3 4 5])
qed

section \<open>Where errors travel\<close>

lemma dispatch_all_reset: "was_reset s \<Longrightarrow> dispatch_all s xs = []"
proof (induction xs arbitrary: s)
  case Nil
  then show ?case by simp
next
  case (Cons x xs)
  then show ?case by (cases x) (simp_all add: ResetStream_def)
qed

lemma on_decode_offer: "on_decode f d = snd (offer Decode f d)"
  by (cases f) (simp_all add: OnDecodeHeaders_def OnDecodeData_def OnDecodeTrailers_def)

lemma decode_frames_delivered:
  "\<not> was_reset s \<Longrightarrow>
     dispatch_all s (map Decoded fs) =
       map CallOnDecode (concat (map snd (run (directions s) (map (Pair Decode) fs))))"
proof (induction fs arbitrary: s)
  case Nil
  then show ?case by simp
next
  case (Cons f fs)
  obtain e d out where o: "offer Decode f (directions s) = (e, d, out)"
    by (cases "offer Decode f (directions s)")
  let ?s = "s\<lparr>directions := d\<rparr>"
  have "\<not> was_reset ?s" using Cons.prems by simp
  from Cons.IH [OF this] Cons.prems o show ?case
    by (simp add: on_decode_offer)
qed

lemma decode_failure_reported:
  "\<not> was_reset s \<Longrightarrow>
     dispatch_all s (map Decoded fs @ DecodeFailed scope # post) =
       map CallOnDecode (concat (map snd (run (directions s) (map (Pair Decode) fs)))) @
       map (\<lambda>l. CallOnResetStream l (failure_reason scope)) (listeners s)"
proof (induction fs arbitrary: s)
  case Nil
  then show ?case by (simp add: ResetStream_def dispatch_all_reset)
next
  case (Cons f fs)
  obtain e d out where o: "offer Decode f (directions s) = (e, d, out)"
    by (cases "offer Decode f (directions s)")
  let ?s = "s\<lparr>directions := d\<rparr>"
  have "\<not> was_reset ?s" using Cons.prems by simp
  from Cons.IH [OF this] Cons.prems o show ?case
    by (simp add: on_decode_offer)
qed

text \<open>
  C3. Encode-path errors come back synchronously: each of \<open>EncodeHeaders\<close>,
  \<open>EncodeData\<close> and \<open>EncodeTrailers\<close> of \<open>StreamEncoder\<close> is declared to return an
  \<open>error\<close>, and in the engine each returns the contract-violation error exactly when
  the call is refused. The three callbacks of \<open>StreamDecoder\<close>, \<open>OnDecodeHeaders\<close>,
  \<open>OnDecodeData\<close> and \<open>OnDecodeTrailers\<close>, are declared without a result, so nothing
  comes back from them. A decode failure is reported only through
  \<open>StreamEventListener.OnResetStream\<close>, which is declared to take the reason: over any
  inbound history of a stream that has not been reset, the frames decoded before the
  first failure go to the decoder callbacks and make no \<open>OnResetStream\<close> call; the
  first failure makes exactly one \<open>OnResetStream\<close> call on each registered listener,
  with the failure's reason, and no decoder callback; and nothing is called after it. On
  a stream that has been reset nothing is called at all.
\<close>

theorem encoder_returns_error_decoder_nothing:
  "map (\<lambda>m. (m_name m, m_results m)) StreamEncoder =
     [(''EncodeHeaders'', [T_error]), (''EncodeData'', [T_error]),
      (''EncodeTrailers'', [T_error]), (''GetStream'', [T_named ''Stream''])] \<and>
   map (\<lambda>m. (m_name m, m_results m)) StreamDecoder =
     [(''OnDecodeHeaders'', []), (''OnDecodeData'', []), (''OnDecodeTrailers'', [])] \<and>
   method_of StreamEventListener ''OnResetStream'' =
     Some (Method ''OnResetStream'' [(''reason'', T_named ''StreamResetReason'')] []) \<and>
   fst (EncodeHeaders headers endStream d) =
     (if encode_ended d then Some ContractViolation else None) \<and>
   fst (EncodeData data endStream d) =
     (if encode_ended d then Some ContractViolation else None) \<and>
   fst (EncodeTrailers trailers d) =
     (if encode_ended d then Some ContractViolation else None) \<and>
   dispatch_all s (map Decoded fs) =
     (if was_reset s then []
      else map CallOnDecode (concat (map snd (run (directions s) (map (Pair Decode) fs))))) \<and>
   dispatch_all s (map Decoded fs @ DecodeFailed scope # post) =
     (if was_reset s then []
      else map CallOnDecode (concat (map snd (run (directions s) (map (Pair Decode) fs)))) @
           map (\<lambda>l. CallOnResetStream l (failure_reason scope)) (listeners s))"
proof -
  have "map (\<lambda>m. (m_name m, m_results m)) StreamEncoder =
     [(''EncodeHeaders'', [T_error]), (''EncodeData'', [T_error]),
      (''EncodeTrailers'', [T_error]), (''GetStream'', [T_named ''Stream''])] \<and>
   map (\<lambda>m. (m_name m, m_results m)) StreamDecoder =
     [(''OnDecodeHeaders'', []), (''OnDecodeData'', []), (''OnDecodeTrailers'', [])] \<and>
   method_of StreamEventListener ''OnResetStream'' =
     Some (Method ''OnResetStream'' [(''reason'', T_named ''StreamResetReason'')] [])"
    by (simp add: StreamEncoder_def StreamDecoder_def StreamEventListener_def method_of_def)
  moreover have "fst (EncodeHeaders headers endStream d) =
       (if encode_ended d then Some ContractViolation else None) \<and>
     fst (EncodeData data endStream d) =
       (if encode_ended d then Some ContractViolation else None) \<and>
     fst (EncodeTrailers trailers d) =
       (if encode_ended d then Some ContractViolation else None)"
    by (simp add: EncodeHeaders_def EncodeData_def EncodeTrailers_def offer_def)
  moreover have "dispatch_all s (map Decoded fs) =
     (if was_reset s then []
      else map CallOnDecode (concat (map snd (run (directions s) (map (Pair Decode) fs)))))"
    using decode_frames_delivered [of s fs] dispatch_all_reset [of s "map Decoded fs"]
    by (cases "was_reset s") simp_all
  moreover have "dispatch_all s (map Decoded fs @ DecodeFailed scope # post) =
     (if was_reset s then []
      else map CallOnDecode (concat (map snd (run (directions s) (map (Pair Decode) fs)))) @
           map (\<lambda>l. CallOnResetStream l (failure_reason scope)) (listeners s))"
    using decode_failure_reported [of s fs scope post]
      dispatch_all_reset [of s "map Decoded fs @ DecodeFailed scope # post"]
    by (cases "was_reset s") simp_all
  ultimately show ?thesis by blast
qed

theorem encoder_returns_error_decoder_nothing_witness:
  "dispatch_all
     \<lparr>directions = \<lparr>encode_ended = False, decode_ended = False\<rparr>, listeners = [1, 2],
      was_reset = False\<rparr>
     (map Decoded [Headers [(''service'', ''echo'')] False, Data ''hello'' True, Data ''late'' False]
        @ DecodeFailed SingleStream # [Decoded (Trailers []), DecodeFailed WholeConnection])
   = [CallOnDecode (Headers [(''service'', ''echo'')] False), CallOnDecode (Data ''hello'' True),
      CallOnResetStream 1 ''StreamRemoteReset'', CallOnResetStream 2 ''StreamRemoteReset'']"
proof -
  let ?s = "\<lparr>directions = \<lparr>encode_ended = False, decode_ended = False\<rparr>, listeners = [1, 2],
      was_reset = False\<rparr>"
  let ?fs = "[Headers [(''service'', ''echo'')] False, Data ''hello'' True, Data ''late'' False]"
  have r: "(if was_reset ?s then []
      else map CallOnDecode (concat (map snd (run (directions ?s) (map (Pair Decode) ?fs)))) @
      map (\<lambda>l. CallOnResetStream l (failure_reason SingleStream)) (listeners ?s)) =
    [CallOnDecode (Headers [(''service'', ''echo'')] False), CallOnDecode (Data ''hello'' True),
      CallOnResetStream 1 ''StreamRemoteReset'', CallOnResetStream 2 ''StreamRemoteReset'']"
    by (simp add: offer_def StreamRemoteReset_def)
  from encoder_returns_error_decoder_nothing [of _ _ _ _ _ ?s ?fs SingleStream
      "[Decoded (Trailers []), DecodeFailed WholeConnection]"]
  have "dispatch_all ?s (map Decoded ?fs @ DecodeFailed SingleStream #
          [Decoded (Trailers []), DecodeFailed WholeConnection]) =
       (if was_reset ?s then []
        else map CallOnDecode (concat (map snd (run (directions ?s) (map (Pair Decode) ?fs)))) @
        map (\<lambda>l. CallOnResetStream l (failure_reason SingleStream)) (listeners ?s))"
    by blast
  then show ?thesis
    by (simp only: r)
qed

end
